theory Spec2Isabelle
  imports Complex_Main
begin

section \<open>External Station Discovery (utils/serper.js)\<close>

text \<open>
  JavaScript numbers are modelled as \<^typ>\<open>real\<close>; a value that \<open>parseFloat\<close> cannot read
  (\<open>NaN\<close>) is \<open>None\<close>. Strings are byte lists. A promise that rejects and a statement that
  throws are both the left summand of a sum type, carrying the error message.

  The trace of a call lists, in order, every entry into \<open>searchExternalStations\<close> and every
  HTTP request sent to the places provider. The function only writes its coordinates into
  the request, so their type \<open>'c\<close> is left open: the evaluator passes numbers, the search
  handler the texts of the query string.
\<close>

datatype station_status = Available | Occupied | Maintenance | Inactive

datatype 'c event =
    Call_searchExternalStations 'c 'c 'c
  | Axios_post 'c 'c

text \<open>One entry of the provider's \<open>places\<close> array; every field may be absent.\<close>

record place =
  cid :: "string option"
  title :: "string option"
  p_address :: "string option"
  p_latitude :: "real option"
  p_longitude :: "real option"
  rating :: "real option"
  ratingCount :: "nat option"

text \<open>
  What \<open>response.data.places\<close> can be: absent or falsy (replaced by \<open>[]\<close>), a truthy value that
  is no array (\<open>places.map\<close> is not a function), or an array whose entries may be \<open>null\<close>.
\<close>

datatype places_field =
    Places_absent
  | Places_not_array
  | Places "place option list"

text \<open>\<open>response.data\<close>: \<open>null\<close>/\<open>undefined\<close> (reading \<open>.places\<close> throws) or a value with a
  \<open>places\<close> property as above.\<close>

datatype response_data = Data_nullish | Data places_field

datatype axios_result = Rejected string | Resolved response_data

text \<open>
  The process environment of the module: the API key variable, the provider (what the POST
  with the given coordinate bias yields) and the tokens that
  \<open>Math.random().toString(36).substr(2, 9)\<close> yields for the array entry at a given index.
\<close>

record 'c env =
  SERPER_API_KEY :: "string option"
  axios :: "'c \<Rightarrow> 'c \<Rightarrow> axios_result"
  random_token :: "nat \<Rightarrow> string"

record ext_station =
  ext_id :: string
  ext_name :: string
  ext_address :: string
  ext_latitude :: "real option"
  ext_longitude :: "real option"
  ext_status :: station_status
  ext_connector_type :: string
  ext_power_output_kw :: real
  ext_price_per_kwh :: real
  is_external :: bool
  ext_rating :: "real option"
  ext_reviews :: "nat option"

text \<open>\<open>x || d\<close> on an optional string: \<open>undefined\<close> and the empty string are falsy.\<close>

definition or_else :: "string option \<Rightarrow> string \<Rightarrow> string" where
  "or_else x d = (case x of None \<Rightarrow> d | Some s \<Rightarrow> if s = [] then d else s)"

text \<open>The arrow function passed to \<open>places.map\<close>, for a non-null entry at index \<open>i\<close>.\<close>

definition to_station :: "(nat \<Rightarrow> string) \<Rightarrow> nat \<Rightarrow> place \<Rightarrow> ext_station" where
  "to_station rnd i p =
     \<lparr> ext_id = ''ext_'' @ or_else (cid p) (rnd i),
       ext_name = or_else (title p) ''Unknown Station'',
       ext_address = or_else (p_address p) ''Address not available'',
       ext_latitude = p_latitude p,
       ext_longitude = p_longitude p,
       ext_status = Available,
       ext_connector_type = ''CCS2'',
       ext_power_output_kw = 50,
       ext_price_per_kwh = 0,
       is_external = True,
       ext_rating = rating p,
       ext_reviews = ratingCount p \<rparr>"

text \<open>\<open>places.map(place => ...)\<close>: reading \<open>place.cid\<close> of a \<open>null\<close> entry throws a TypeError.\<close>

fun map_places :: "(nat \<Rightarrow> string) \<Rightarrow> nat \<Rightarrow> place option list \<Rightarrow> string + ext_station list" where
  "map_places rnd i [] = Inr []"
| "map_places rnd i (None # ps) = Inl ''TypeError: Cannot read properties of null''"
| "map_places rnd i (Some p # ps) =
     (case map_places rnd (Suc i) ps of
        Inl e \<Rightarrow> Inl e
      | Inr ss \<Rightarrow> Inr (to_station rnd i p # ss))"

text \<open>The body of the \<open>try\<close> block, after the request has been sent.\<close>

definition try_body :: "'c env \<Rightarrow> 'c \<Rightarrow> 'c \<Rightarrow> string + ext_station list" where
  "try_body e latitude longitude =
     (case axios e latitude longitude of
        Rejected msg \<Rightarrow> Inl msg
      | Resolved Data_nullish \<Rightarrow> Inl ''TypeError: Cannot read properties of undefined''
      | Resolved (Data Places_absent) \<Rightarrow> map_places (random_token e) 0 []
      | Resolved (Data Places_not_array) \<Rightarrow> Inl ''TypeError: places.map is not a function''
      | Resolved (Data (Places ps)) \<Rightarrow> map_places (random_token e) 0 ps)"

definition key_missing :: "'c env \<Rightarrow> bool" where
  "key_missing e = (case SERPER_API_KEY e of None \<Rightarrow> True | Some k \<Rightarrow> k = [])"

definition searchExternalStations ::
  "'c env \<Rightarrow> 'c \<Rightarrow> 'c \<Rightarrow> 'c \<Rightarrow> (string + ext_station list) \<times> 'c event list" where
  "searchExternalStations e latitude longitude radius =
     (if key_missing e
      then (Inr [], [Call_searchExternalStations latitude longitude radius])
      else
        ((case try_body e latitude longitude of
            Inl error \<Rightarrow> Inr []
          | Inr stations \<Rightarrow> Inr stations),
         [Call_searchExternalStations latitude longitude radius,
          Axios_post latitude longitude]))"

section \<open>Suggestion Evaluator (utils/trip\_logic.js)\<close>

record location =
  lat :: real
  lng :: real

record trip =
  trip_id :: int
  trip_user_id :: int
  destination_lat :: real
  destination_lng :: real
  battery_start_pct :: real
  battery_current_pct :: real

record suggestion =
  sg_type :: string
  mealType :: string
  station :: ext_station
  message :: string
  chargeDuration :: nat

definition meal_of_hour :: "nat \<Rightarrow> string option" where
  "meal_of_hour currentHour =
     (if currentHour \<ge> 8 \<and> currentHour \<le> 9 then Some ''breakfast''
      else if currentHour \<ge> 12 \<and> currentHour \<le> 14 then Some ''lunch''
      else if currentHour \<ge> 19 \<and> currentHour \<le> 21 then Some ''dinner''
      else None)"

text \<open>The template literal of the message; it ends with the UTF-8 bytes of two emoji.
  \<open>suggestedDuration\<close> is the constant 40, printed as \<open>40\<close>.\<close>

definition suggestion_message :: "string \<Rightarrow> string \<Rightarrow> string" where
  "suggestion_message meal station_name =
     ''It's '' @ meal @ '' time! There's a fast charger nearby at '' @ station_name @
     ''. If you charge here for 40 mins, you can reach your destination without another stop. '' @
     [CHR 0xE2, CHR 0x98, CHR 0x95, CHR 0xE2, CHR 0x9A, CHR 0xA1]"

text \<open>
  \<open>evaluateSmartSuggestions(trip, currentLocation, currentBattery)\<close>. The two things the
  function takes from its surroundings are passed explicitly: \<open>search\<close>, the imported
  \<open>searchExternalStations\<close>, and \<open>currentHour\<close>, the value of \<open>new Date().getHours()\<close>.
  The call to \<open>search\<close> is awaited outside any \<open>try\<close>, so its failure is the function's.
\<close>

definition evaluateSmartSuggestions ::
  "(real \<Rightarrow> real \<Rightarrow> real \<Rightarrow> (string + ext_station list) \<times> real event list) \<Rightarrow> nat \<Rightarrow>
   trip \<Rightarrow> location \<Rightarrow> real \<Rightarrow> (string + suggestion option) \<times> real event list" where
  "evaluateSmartSuggestions search currentHour trip currentLocation currentBattery =
     (case meal_of_hour currentHour of
        None \<Rightarrow> (Inr None, [])
      | Some meal \<Rightarrow>
          if currentBattery \<ge> 60 then (Inr None, [])
          else
            (case search (lat currentLocation) (lng currentLocation) 5 of
               (Inl error, tr) \<Rightarrow> (Inl error, tr)
             | (Inr nearbyStations, tr) \<Rightarrow>
                 (case filter (\<lambda>s. ext_power_output_kw s \<ge> 30) nearbyStations of
                    [] \<Rightarrow> (Inr None, tr)
                  | bestStation # _ \<Rightarrow>
                      (Inr (Some \<lparr> sg_type = ''meal_stop'',
                                   mealType = meal,
                                   station = bestStation,
                                   message = suggestion_message meal (ext_name bestStation),
                                   chargeDuration = 40 \<rparr>), tr))))"

section \<open>The relational store (database/schema.sql)\<close>

text \<open>
  Tables are lists of rows in insertion order. Instants are milliseconds since the epoch.
  Only the columns that the handlers below read or write are kept; \<open>created_at\<close> and
  \<open>updated_at\<close> of stations are left out. A nullable column is an option, \<open>None\<close> being SQL
  \<open>NULL\<close>. The connection to the store never fails in this model: the errors a statement
  raises are the ones written out below, which are a constraint violation, a parameter that
  the store cannot read as an integer, and an arithmetic function applied outside its range.
\<close>

record station_row =
  st_id :: int
  st_name :: string
  st_address :: string
  st_latitude :: real
  st_longitude :: real
  st_status :: "station_status option"
  st_connector_type :: "string option"
  st_power_output_kw :: "real option"
  st_price_per_kwh :: "real option"

datatype booking_status = Active | Completed | Cancelled

record booking =
  bk_id :: int
  bk_user_id :: int
  bk_station_id :: int
  bk_start_time :: int
  bk_end_time :: "int option"
  bk_status :: booking_status
  bk_created_at :: int
  bk_cancelled_at :: "int option"

record user =
  u_id :: int
  u_name :: string
  u_email :: string
  u_password :: string
  u_phone :: string
  u_is_admin :: bool
  u_created_at :: int

record db =
  charging_stations :: "station_row list"
  bookings :: "booking list"
  bookings_id_seq :: int
  users :: "user list"
  users_id_seq :: int

section \<open>The platform\<close>

text \<open>
  A double-precision value as JavaScript and PostgreSQL hold it: a number, an infinity or
  \<open>NaN\<close>. PostgreSQL orders them with \<open>NaN\<close> equal to itself and above every other value.
\<close>

datatype float8 = Num real | PosInf | NegInf | NaN

fun float8_le :: "float8 \<Rightarrow> float8 \<Rightarrow> bool" where
  "float8_le a NaN = True"
| "float8_le NaN b = False"
| "float8_le NegInf b = True"
| "float8_le a NegInf = False"
| "float8_le a PosInf = True"
| "float8_le PosInf b = False"
| "float8_le (Num x) (Num y) = (x \<le> y)"

text \<open>
  What the handlers take from the JavaScript runtime and from PostgreSQL, none of it code of
  this repository: \<open>parseFloat\<close> and \<open>String.prototype.toLowerCase\<close>; \<open>int4in\<close>, how the
  store reads the text of a parameter compared with an \<open>integer\<close> column (\<open>None\<close> when it
  raises: the text is no integer or lies outside 32 bits); and \<open>acos_raises\<close>, whether for a
  query point and a station's point the double-precision value handed to \<open>acos\<close> has been
  rounded outside \<open>[-1, 1]\<close>, where \<open>acos\<close> raises \<open>input is out of range\<close>.
\<close>

record platform =
  parseFloat :: "string \<Rightarrow> float8"
  toLowerCase :: "string \<Rightarrow> string"
  int4in :: "string \<Rightarrow> int option"
  acos_raises :: "real \<Rightarrow> real \<Rightarrow> real \<Rightarrow> real \<Rightarrow> bool"

section \<open>Station search (the handler registered for GET /stations/search)\<close>

definition radians :: "real \<Rightarrow> real" where
  "radians d = d * pi / 180"

text \<open>
  The \<open>distance\<close> expression of the query for a numeric query point \<open>$1\<close>, \<open>$2\<close>, as the
  same expression over the reals.
\<close>

definition great_circle :: "real \<Rightarrow> real \<Rightarrow> real \<Rightarrow> real \<Rightarrow> real" where
  "great_circle p1 p2 latitude longitude =
     6371 * arccos (cos (radians p1) * cos (radians latitude) *
                    cos (radians longitude - radians p2) +
                    sin (radians p1) * sin (radians latitude))"

text \<open>
  The \<open>distance\<close> column as PostgreSQL computes it for one row. \<open>cos\<close> and \<open>sin\<close> raise on an
  infinity and \<open>acos\<close> raises outside its range; \<open>NaN\<close> goes through every function.
\<close>

definition sql_distance :: "platform \<Rightarrow> float8 \<Rightarrow> float8 \<Rightarrow> station_row \<Rightarrow> string + float8" where
  "sql_distance pf p1 p2 s =
     (case (p1, p2) of
        (Num a, Num b) \<Rightarrow>
          if acos_raises pf a b (st_latitude s) (st_longitude s)
          then Inl ''input is out of range''
          else Inr (Num (great_circle a b (st_latitude s) (st_longitude s)))
      | _ \<Rightarrow>
          if p1 = PosInf \<or> p1 = NegInf \<or> p2 = PosInf \<or> p2 = NegInf
          then Inl ''input is out of range''
          else Inr NaN)"

text \<open>\<open>WHERE status != 'inactive'\<close>: a \<open>NULL\<close> status compares to \<open>NULL\<close>, which is not true.\<close>

definition not_inactive :: "station_row \<Rightarrow> bool" where
  "not_inactive s = (case st_status s of None \<Rightarrow> False | Some st \<Rightarrow> st \<noteq> Inactive)"

text \<open>The inner select: every row that is not inactive gets its distance; one row whose
  distance raises fails the statement.\<close>

fun with_distance ::
  "platform \<Rightarrow> float8 \<Rightarrow> float8 \<Rightarrow> station_row list \<Rightarrow> string + (station_row \<times> float8) list" where
  "with_distance pf p1 p2 [] = Inr []"
| "with_distance pf p1 p2 (s # rest) =
     (case sql_distance pf p1 p2 s of
        Inl error \<Rightarrow> Inl error
      | Inr distance \<Rightarrow>
          (case with_distance pf p1 p2 rest of
             Inl error \<Rightarrow> Inl error
           | Inr rows \<Rightarrow> Inr ((s, distance) # rows)))"

text \<open>
  \<open>ORDER BY distance\<close> leaves the order of rows at equal distance open; insertion from the
  right is one such order.
\<close>

fun insort_distance ::
  "station_row \<times> float8 \<Rightarrow> (station_row \<times> float8) list \<Rightarrow> (station_row \<times> float8) list" where
  "insort_distance r [] = [r]"
| "insort_distance r (x # xs) =
     (if float8_le (snd r) (snd x) then r # x # xs else x # insort_distance r xs)"

definition order_by_distance :: "(station_row \<times> float8) list \<Rightarrow> (station_row \<times> float8) list" where
  "order_by_distance rows = foldr insort_distance rows []"

text \<open>The SQL statement with its three parameters.\<close>

definition search_query ::
  "platform \<Rightarrow> station_row list \<Rightarrow> float8 \<Rightarrow> float8 \<Rightarrow> float8 \<Rightarrow>
   string + (station_row \<times> float8) list" where
  "search_query pf table p1 p2 p3 =
     (case with_distance pf p1 p2 (filter not_inactive table) of
        Inl error \<Rightarrow> Inl error
      | Inr filtered_stations \<Rightarrow>
          Inr (take 50
                 (order_by_distance
                    (filter (\<lambda>(s, distance). float8_le distance p3) filtered_stations))))"

text \<open>An entry of the JSON array of the response: a row of the query with its distance, or
  an object made by \<open>searchExternalStations\<close>.\<close>

datatype search_result = Persisted station_row float8 | External ext_station

text \<open>The query string: each parameter is absent or a text.\<close>

record search_request =
  q_latitude :: "string option"
  q_longitude :: "string option"
  q_radius :: "string option"

datatype search_response =
    Search_400 string
  | Search_200 "search_result list"
  | Search_500 string

text \<open>
  The handler. An absent and an empty \<open>latitude\<close> or \<open>longitude\<close> are falsy. \<open>radius\<close> is
  10 only when the parameter is absent; a text, the empty one too, goes through
  \<open>parseFloat\<close>. The fallback gets the texts as they came, the default radius as the
  text \<open>10\<close>.
\<close>

definition stations_search ::
  "platform \<Rightarrow> string env \<Rightarrow> station_row list \<Rightarrow> search_request \<Rightarrow>
   search_response \<times> string event list" where
  "stations_search pf e table req =
     (case (q_latitude req, q_longitude req) of
        (Some latitude, Some longitude) \<Rightarrow>
          if latitude = [] \<or> longitude = []
          then (Search_400 ''Latitude and longitude are required'', [])
          else
            (case search_query pf table (parseFloat pf latitude) (parseFloat pf longitude)
                    (case q_radius req of None \<Rightarrow> Num 10 | Some r \<Rightarrow> parseFloat pf r) of
               Inl error \<Rightarrow> (Search_500 ''Internal server error'', [])
             | Inr rows \<Rightarrow>
                 if length rows < 5
                 then
                   (case searchExternalStations e latitude longitude
                           (case q_radius req of None \<Rightarrow> ''10'' | Some r \<Rightarrow> r) of
                      (Inl externalError, tr) \<Rightarrow>
                        (Search_200 (map (\<lambda>(s, d). Persisted s d) rows), tr)
                    | (Inr externalStations, tr) \<Rightarrow>
                        (let dbNames = set (map (\<lambda>(s, d). toLowerCase pf (st_name s)) rows);
                             uniqueExternal =
                               filter (\<lambda>s. toLowerCase pf (ext_name s) \<notin> dbNames)
                                 externalStations
                         in (Search_200 (map (\<lambda>(s, d). Persisted s d) rows @
                                         map External uniqueExternal), tr)))
                 else (Search_200 (map (\<lambda>(s, d). Persisted s d) rows), []))
      | _ \<Rightarrow> (Search_400 ''Latitude and longitude are required'', []))"

section \<open>Booking Manager (POST /bookings, DELETE /bookings/:id, GET /stations/:id)\<close>

datatype station_response = Station_404 string | Station_200 station_row | Station_500 string

text \<open>The handler of GET /stations/:id once the store has read the id as an integer.\<close>

definition get_station :: "db \<Rightarrow> int \<Rightarrow> station_response" where
  "get_station d ident =
     (case filter (\<lambda>s. st_id s = ident) (charging_stations d) of
        [] \<Rightarrow> Station_404 ''Station not found''
      | row # _ \<Rightarrow> Station_200 row)"

text \<open>
  The handler of GET /stations/:id. \<open>id\<close> is the text of the path segment; the select
  compares it with the integer key, and when the store cannot read it the statement raises
  and the \<open>catch\<close> answers 500.
\<close>

definition get_stations_id :: "platform \<Rightarrow> db \<Rightarrow> string \<Rightarrow> station_response" where
  "get_stations_id pf d ident =
     (case int4in pf ident of
        None \<Rightarrow> Station_500 ''Internal server error''
      | Some n \<Rightarrow> get_station d n)"

text \<open>The request body; \<open>start_time\<close> is the instant its non-empty string denotes.\<close>

record booking_request =
  station_id :: "int option"
  start_time :: "int option"
  duration :: "int option"

datatype booking_response =
    Booking_400 string
  | Booking_404 string
  | Booking_201 booking
  | Booking_200 string
  | Booking_500 string

text \<open>
  \<open>INSERT INTO bookings ... RETURNING id\<close>. The serial column draws the next value of its
  sequence, which stays drawn when the statement fails. The primary key and the foreign key
  to \<open>users\<close> are checked; the station was selected just before.
\<close>

definition insert_booking :: "db \<Rightarrow> int \<Rightarrow> int \<Rightarrow> int \<Rightarrow> int option \<Rightarrow> int \<Rightarrow> (string + booking) \<times> db" where
  "insert_booking d userId stationId startTime endTime now =
     (let ident = bookings_id_seq d;
          d1 = d\<lparr>bookings_id_seq := ident + 1\<rparr>;
          row = \<lparr> bk_id = ident, bk_user_id = userId, bk_station_id = stationId,
                  bk_start_time = startTime, bk_end_time = endTime, bk_status = Active,
                  bk_created_at = now, bk_cancelled_at = None \<rparr>
      in if list_ex (\<lambda>b. bk_id b = ident) (bookings d) then (Inl ''23505'', d1)
         else if \<not> list_ex (\<lambda>u. u_id u = userId) (users d) then (Inl ''23503'', d1)
         else (Inr row, d1\<lparr>bookings := bookings d @ [row]\<rparr>))"

definition set_station_status :: "int \<Rightarrow> station_status \<Rightarrow> db \<Rightarrow> db" where
  "set_station_status ident st d =
     d\<lparr>charging_stations :=
         map (\<lambda>s. if st_id s = ident then s\<lparr>st_status := Some st\<rparr> else s)
           (charging_stations d)\<rparr>"

definition post_bookings :: "int \<Rightarrow> db \<Rightarrow> int \<Rightarrow> booking_request \<Rightarrow> booking_response \<times> db" where
  "post_bookings now d userId req =
     (case (station_id req, start_time req) of
        (Some sid, Some st) \<Rightarrow>
          if sid = 0 then (Booking_400 ''Station ID and start time are required'', d)
          else
            (case filter (\<lambda>s. st_id s = sid) (charging_stations d) of
               [] \<Rightarrow> (Booking_404 ''Station not found'', d)
             | row # _ \<Rightarrow>
                 if st_status row \<noteq> Some Available
                 then (Booking_400 ''Station is not available'', d)
                 else
                   (let endTime =
                          (case duration req of
                             None \<Rightarrow> None
                           | Some m \<Rightarrow> if m = 0 then None else Some (st + m * 60000))
                    in case insert_booking d userId sid st endTime now of
                         (Inl error, d1) \<Rightarrow> (Booking_500 ''Internal server error'', d1)
                       | (Inr created, d1) \<Rightarrow>
                           (Booking_201 created, set_station_status sid Occupied d1)))
      | _ \<Rightarrow> (Booking_400 ''Station ID and start time are required'', d))"

text \<open>The handler of DELETE /bookings/:id once the store has read the id as an integer.\<close>

definition delete_booking :: "int \<Rightarrow> db \<Rightarrow> int \<Rightarrow> int \<Rightarrow> booking_response \<times> db" where
  "delete_booking now d userId ident =
     (case filter (\<lambda>b. bk_id b = ident \<and> bk_user_id b = userId) (bookings d) of
        [] \<Rightarrow> (Booking_404 ''Booking not found'', d)
      | found # _ \<Rightarrow>
          (let d1 = d\<lparr>bookings :=
                        map (\<lambda>b. if bk_id b = ident
                                  then b\<lparr>bk_status := Cancelled, bk_cancelled_at := Some now\<rparr>
                                  else b)
                          (bookings d)\<rparr>
           in (Booking_200 ''Booking cancelled successfully'',
               set_station_status (bk_station_id found) Available d1)))"

text \<open>
  The handler of DELETE /bookings/:id. The first statement compares the text of the path
  segment with the integer key; when the store cannot read it the statement raises, nothing
  has been written, and the \<open>catch\<close> answers 500.
\<close>

definition delete_bookings_id ::
  "platform \<Rightarrow> int \<Rightarrow> db \<Rightarrow> int \<Rightarrow> string \<Rightarrow> booking_response \<times> db" where
  "delete_bookings_id pf now d userId ident =
     (case int4in pf ident of
        None \<Rightarrow> (Booking_500 ''Internal server error'', d)
      | Some n \<Rightarrow> delete_booking now d userId n)"

section \<open>Routing of GET requests (server.js)\<close>

text \<open>
  Express tries the routes in the order of their registration and runs the handler of the
  first whose path matches; no handler here passes the request on. A path is its list of
  segments; \<open>:id\<close> matches any non-empty segment.
\<close>

datatype seg = Lit string | Param

fun match_path :: "seg list \<Rightarrow> string list \<Rightarrow> string list option" where
  "match_path [] [] = Some []"
| "match_path (Lit l # ps) (x # xs) = (if l = x then match_path ps xs else None)"
| "match_path (Param # ps) (x # xs) =
     (if x = [] then None
      else (case match_path ps xs of None \<Rightarrow> None | Some vs \<Rightarrow> Some (x # vs)))"
| "match_path ps xs = None"

datatype get_route =
    Stations | Stations_id | Stations_search | Bookings | Users_profile | Admin_stats
  | Admin_users | Admin_bookings | Trips_active | Users_preferences | Health

text \<open>The \<open>app.get\<close> calls of the server, top to bottom.\<close>

definition get_routes :: "(seg list \<times> get_route) list" where
  "get_routes =
     [([Lit ''stations''], Stations),
      ([Lit ''stations'', Param], Stations_id),
      ([Lit ''stations'', Lit ''search''], Stations_search),
      ([Lit ''bookings''], Bookings),
      ([Lit ''users'', Lit ''profile''], Users_profile),
      ([Lit ''admin'', Lit ''stats''], Admin_stats),
      ([Lit ''admin'', Lit ''users''], Admin_users),
      ([Lit ''admin'', Lit ''bookings''], Admin_bookings),
      ([Lit ''trips'', Lit ''active''], Trips_active),
      ([Lit ''users'', Lit ''preferences''], Users_preferences),
      ([Lit ''health''], Health)]"

fun first_match :: "(seg list \<times> get_route) list \<Rightarrow> string list \<Rightarrow> (get_route \<times> string list) option" where
  "first_match [] path = None"
| "first_match ((pattern, route) # rest) path =
     (case match_path pattern path of
        Some params \<Rightarrow> Some (route, params)
      | None \<Rightarrow> first_match rest path)"

definition route_of :: "string list \<Rightarrow> (get_route \<times> string list) option" where
  "route_of path = first_match get_routes path"

datatype app_response =
    Station_response station_response
  | Search_response search_response
  | Other_handler get_route
  | Route_not_found

text \<open>What the application answers to a GET request; of the handlers, the two for stations
  are followed into.\<close>

definition app_get ::
  "platform \<Rightarrow> string env \<Rightarrow> db \<Rightarrow> string list \<Rightarrow> search_request \<Rightarrow>
   app_response \<times> string event list" where
  "app_get pf e d path query =
     (case route_of path of
        None \<Rightarrow> (Route_not_found, [])
      | Some (Stations_id, params) \<Rightarrow>
          (case params of
             [ident] \<Rightarrow> (Station_response (get_stations_id pf d ident), [])
           | _ \<Rightarrow> (Route_not_found, []))
      | Some (Stations_search, params) \<Rightarrow>
          (case stations_search pf e (charging_stations d) query of
             (response, tr) \<Rightarrow> (Search_response response, tr))
      | Some (route, params) \<Rightarrow> (Other_handler route, []))"

section \<open>Registration (POST /auth/register)\<close>

text \<open>\<open>\d\<close> matches the ten ASCII digits.\<close>

definition is_digit :: "char \<Rightarrow> bool" where
  "is_digit c = (let n = (of_char c :: nat) in 48 \<le> n \<and> n \<le> 57)"

text \<open>\<open>String.prototype.trim\<close> on the ASCII white space and line terminators (tab, line feed,
  vertical tab, form feed, carriage return, space).\<close>

definition is_space :: "char \<Rightarrow> bool" where
  "is_space c = (let n = (of_char c :: nat) in (9 \<le> n \<and> n \<le> 13) \<or> n = 32)"

definition trim :: "string \<Rightarrow> string" where
  "trim s = rev (dropWhile is_space (rev (dropWhile is_space s)))"

text \<open>\<open>phoneTrimmed.replace(/[^\d+]/g, '').replace(/\+/g, '')\<close>\<close>

definition digitsOnly :: "string \<Rightarrow> string" where
  "digitsOnly phoneTrimmed =
     filter (\<lambda>c. c \<noteq> CHR ''+'') (filter (\<lambda>c. is_digit c \<or> c = CHR ''+'') phoneTrimmed)"

record register_request =
  r_name :: "string option"
  r_email :: "string option"
  r_password :: "string option"
  r_phone :: "string option"

record registered =
  token :: string
  reg_id :: int
  reg_name :: string
  reg_email :: string
  reg_phone :: string

datatype register_response =
    Register_400 string
  | Register_201 registered
  | Register_500 string

text \<open>
  \<open>INSERT INTO users ... RETURNING ...\<close>: the serial primary key and the unique email raise
  \<open>23505\<close>; a value longer than its \<open>VARCHAR\<close> column raises \<open>22001\<close>.
\<close>

definition insert_user :: "db \<Rightarrow> string \<Rightarrow> string \<Rightarrow> string \<Rightarrow> string \<Rightarrow> int \<Rightarrow> (string + user) \<times> db" where
  "insert_user d name email hashedPassword phone now =
     (let ident = users_id_seq d;
          d1 = d\<lparr>users_id_seq := ident + 1\<rparr>;
          row = \<lparr> u_id = ident, u_name = name, u_email = email, u_password = hashedPassword,
                  u_phone = phone, u_is_admin = False, u_created_at = now \<rparr>
      in if length name > 255 \<or> length email > 255 \<or> length hashedPassword > 255 \<or>
            length phone > 20
         then (Inl ''22001'', d1)
         else if list_ex (\<lambda>u. u_id u = ident \<or> u_email u = email) (users d)
         then (Inl ''23505'', d1)
         else (Inr row, d1\<lparr>users := users d @ [row]\<rparr>))"

text \<open>
  The handler; an absent field and an empty string are both falsy. \<open>bcrypt_hash\<close> stands
  for \<open>bcrypt.hash(password, 10)\<close> and \<open>jwt_sign\<close> for
  \<open>jwt.sign\<close> of the new user's id and email under the server's secret.
\<close>

definition post_auth_register ::
  "(string \<Rightarrow> string) \<Rightarrow> (int \<Rightarrow> string \<Rightarrow> string) \<Rightarrow> int \<Rightarrow> db \<Rightarrow> register_request \<Rightarrow>
   register_response \<times> db" where
  "post_auth_register bcrypt_hash jwt_sign now d req =
     (case (r_name req, r_email req, r_password req) of
        (Some name, Some email, Some password) \<Rightarrow>
          if name = [] \<or> email = [] \<or> password = []
          then (Register_400 ''Name, email, and password are required'', d)
          else
            (case r_phone req of
               None \<Rightarrow> (Register_400 ''Phone number is required'', d)
             | Some phone \<Rightarrow>
                 if phone = [] then (Register_400 ''Phone number is required'', d)
                 else
                   (let phoneTrimmed = trim phone
                    in if phoneTrimmed = []
                       then (Register_400 ''Phone number cannot be empty'', d)
                       else if length (digitsOnly phoneTrimmed) < 10
                       then (Register_400 ''Phone number must be at least 10 digits'', d)
                       else if filter (\<lambda>u. u_email u = email) (users d) \<noteq> []
                       then (Register_400 ''User with this email already exists'', d)
                       else
                         (case insert_user d name email (bcrypt_hash password) phoneTrimmed now of
                            (Inl code, d1) \<Rightarrow>
                              if code = ''23505''
                              then (Register_400
                                      ''User with this email or phone already exists'', d1)
                              else if code = ''23502''
                              then (Register_400 ''Missing required fields'', d1)
                              else (Register_500 ''Internal server error'', d1)
                          | (Inr newUser, d1) \<Rightarrow>
                              (Register_201
                                 \<lparr> token = jwt_sign (u_id newUser) email,
                                   reg_id = u_id newUser, reg_name = u_name newUser,
                                   reg_email = u_email newUser, reg_phone = u_phone newUser \<rparr>,
                               d1))))
      | _ \<Rightarrow> (Register_400 ''Name, email, and password are required'', d))"

section \<open>Example data\<close>

text \<open>The trip and location of \<open>test-logic.js\<close>, and a search function standing in for the
  provider, as that script intends.\<close>

definition mockTrip :: trip where
  "mockTrip = \<lparr> trip_id = 1, trip_user_id = 1, destination_lat = 9.9312,
                 destination_lng = 76.2673, battery_start_pct = 80, battery_current_pct = 40 \<rparr>"

definition mockLocation :: location where
  "mockLocation = \<lparr> lat = 10.0159, lng = 76.3419 \<rparr>"

definition mock_search ::
  "ext_station list \<Rightarrow> real \<Rightarrow> real \<Rightarrow> real \<Rightarrow> (string + ext_station list) \<times> real event list" where
  "mock_search found latitude longitude radius = (Inr found, [])"

definition charger :: "string \<Rightarrow> real \<Rightarrow> ext_station" where
  "charger name kw =
     \<lparr> ext_id = ''ext_'' @ name, ext_name = name, ext_address = ''Address not available'',
       ext_latitude = Some 10, ext_longitude = Some 76, ext_status = Available,
       ext_connector_type = ''CCS2'', ext_power_output_kw = kw, ext_price_per_kwh = 0,
       is_external = True, ext_rating = None, ext_reviews = None \<rparr>"

text \<open>A provider that answers every request with the same outcome.\<close>

definition fixed_token :: "nat \<Rightarrow> string" where
  "fixed_token i = ''k3j9x0q2a''"

definition provider_env :: "string option \<Rightarrow> axios_result \<Rightarrow> 'c env" where
  "provider_env key outcome =
     \<lparr> SERPER_API_KEY = key, axios = (\<lambda>latitude longitude. outcome),
       random_token = fixed_token \<rparr>"

definition place_at :: "string \<Rightarrow> real \<Rightarrow> real \<Rightarrow> place" where
  "place_at name latitude longitude =
     \<lparr> cid = None, title = Some name, p_address = None, p_latitude = Some latitude,
       p_longitude = Some longitude, rating = None, ratingCount = None \<rparr>"

definition station_at :: "int \<Rightarrow> string \<Rightarrow> real \<Rightarrow> real \<Rightarrow> station_status \<Rightarrow> station_row" where
  "station_at ident name latitude longitude st =
     \<lparr> st_id = ident, st_name = name, st_address = ''123 Main Street, City Center'',
       st_latitude = latitude, st_longitude = longitude, st_status = Some st,
       st_connector_type = Some ''CCS2'', st_power_output_kw = Some 50,
       st_price_per_kwh = Some 0.15 \<rparr>"

text \<open>Two places of a provider and the objects made from them.\<close>

definition far_north_place :: place where
  "far_north_place = place_at ''Far North Charger'' 90 0"


definition far_north :: ext_station where
  "far_north = to_station fixed_token 0 far_north_place"


text \<open>A provider that knows a namesake of the first persisted station and the charger at
  the north pole.\<close>

definition far_north_env :: "string env" where
  "far_north_env =
     provider_env (Some ''test-key'')
       (Resolved (Data (Places [Some (place_at ''ELECTROSPOT STATION 1'' 0 0),
                                Some far_north_place])))"


definition station_one :: station_row where
  "station_one = station_at 1 ''ElectroSpot Station 1'' 0 0 Available"

definition query_origin :: "string \<Rightarrow> search_request" where
  "query_origin radius =
     \<lparr> q_latitude = Some ''0'', q_longitude = Some ''0'', q_radius = Some radius \<rparr>"

text \<open>
  An instance of the platform for texts that are plain decimal numerals, which is all the
  examples use: \<open>parseFloat\<close> and \<open>int4in\<close> read such a text as its number (\<open>int4in\<close> within
  32 bits) and give \<open>NaN\<close> and an error on any other text, \<open>toLowerCase\<close> folds the ASCII
  letters, and no rounding leaves the range of \<open>acos\<close>.
\<close>

definition decimal_value :: "string \<Rightarrow> nat option" where
  "decimal_value t =
     (if t \<noteq> [] \<and> list_all is_digit t
      then Some (foldl (\<lambda>n c. 10 * n + (of_char c - 48)) 0 t)
      else None)"

definition lower_char :: "char \<Rightarrow> char" where
  "lower_char c =
     (case map_of (zip ''ABCDEFGHIJKLMNOPQRSTUVWXYZ'' ''abcdefghijklmnopqrstuvwxyz'') c of
        None \<Rightarrow> c
      | Some l \<Rightarrow> l)"

definition example_platform :: platform where
  "example_platform =
     \<lparr> parseFloat = (\<lambda>t. case decimal_value t of None \<Rightarrow> NaN | Some n \<Rightarrow> Num (real n)),
       toLowerCase = map lower_char,
       int4in = (\<lambda>t. case decimal_value t of
                         None \<Rightarrow> None
                       | Some n \<Rightarrow> if n \<le> 2147483647 then Some (int n) else None),
       acos_raises = (\<lambda>a b latitude longitude. False) \<rparr>"

definition asha :: user where
  "asha = \<lparr> u_id = 1, u_name = ''Asha'', u_email = ''asha@example.com'', u_password = ''$2a$10$'',
            u_phone = ''+91 98765 43210'', u_is_admin = False, u_created_at = 0 \<rparr>"

definition ravi :: user where
  "ravi = \<lparr> u_id = 2, u_name = ''Ravi'', u_email = ''ravi@example.com'', u_password = ''$2a$10$'',
            u_phone = ''9876501234'', u_is_admin = False, u_created_at = 0 \<rparr>"

text \<open>One available station, two users, no booking yet.\<close>

definition fresh_db :: db where
  "fresh_db = \<lparr> charging_stations = [station_at 1 ''ElectroSpot Station 1'' 0 0 Available],
                 bookings = [], bookings_id_seq = 1, users = [asha, ravi], users_id_seq = 3 \<rparr>"

text \<open>The same store after the first user has booked the station.\<close>

definition booked_db :: db where
  "booked_db = \<lparr> charging_stations = [station_at 1 ''ElectroSpot Station 1'' 0 0 Occupied],
                  bookings = [\<lparr> bk_id = 1, bk_user_id = 1, bk_station_id = 1, bk_start_time = 1000,
                                bk_end_time = None, bk_status = Active, bk_created_at = 900,
                                bk_cancelled_at = None \<rparr>],
                  bookings_id_seq = 2, users = [asha, ravi], users_id_seq = 3 \<rparr>"

section \<open>Properties of the Suggestion Evaluator\<close>

lemma meal_of_hour_None_iff:
  "meal_of_hour h = None \<longleftrightarrow> h \<notin> {8..9} \<union> {12..14} \<union> {19..21}"
  by (auto simp: meal_of_hour_def)

lemma filter_first:
  "filter P xs = y # ys \<Longrightarrow> \<exists>pre post. xs = pre @ y # post \<and> (\<forall>s\<in>set pre. \<not> P s) \<and> P y"
  by (metis filter_eq_Cons_iff)

text \<open>
  Claim C5. At an hour outside the meal windows 8 to 9, 12 to 14 and 19 to 21 the evaluator
  returns \<open>null\<close> whatever the battery, trip and location are, and its trace is empty: the
  search function, whichever it is, was not entered and no request was sent.
\<close>

theorem evaluator_outside_meal_windows:
  assumes "currentHour \<notin> {8..9} \<union> {12..14} \<union> {19..21}"
  shows "evaluateSmartSuggestions search currentHour trip currentLocation currentBattery
         = (Inr None, [])"
proof -
  from assms have "meal_of_hour currentHour = None"
    by (simp add: meal_of_hour_None_iff)
  then show ?thesis by (simp add: evaluateSmartSuggestions_def)
qed

theorem evaluator_outside_meal_windows_witness:
  "(10::nat) \<notin> {8..9} \<union> {12..14} \<union> {19..21} \<and>
   evaluateSmartSuggestions
     (searchExternalStations
        (provider_env (Some ''test-key'')
           (Resolved (Data (Places [Some (place_at ''Kochi Fast Charge'' 10 76)])))))
     10 mockTrip mockLocation 40
   = (Inr None, [])"
proof -
  have h: "(10::nat) \<notin> {8..9} \<union> {12..14} \<union> {19..21}" by simp
  show ?thesis by (intro conjI h evaluator_outside_meal_windows[OF h])
qed

text \<open>
  Claim C6. With a battery percentage of 60 or more the evaluator returns \<open>null\<close> at every
  hour, inside a meal window too, for every trip and location; the provider is not consulted.
\<close>

theorem evaluator_high_battery:
  assumes "currentBattery \<ge> 60"
  shows "evaluateSmartSuggestions search currentHour trip currentLocation currentBattery
         = (Inr None, [])"
  using assms by (simp add: evaluateSmartSuggestions_def split: option.splits)

theorem evaluator_high_battery_witness:
  "(80::real) \<ge> 60 \<and> meal_of_hour 13 = Some ''lunch'' \<and>
   evaluateSmartSuggestions (mock_search [charger ''ElectroSpot Station 1'' 50])
     13 mockTrip mockLocation 80
   = (Inr None, [])"
proof -
  have h: "(80::real) \<ge> 60" by simp
  have m: "meal_of_hour 13 = Some ''lunch''" by (simp add: meal_of_hour_def)
  show ?thesis by (intro conjI h m evaluator_high_battery[OF h])
qed

text \<open>
  Claim C1. During a meal-window hour and with a battery below 60 (40 in particular), when
  the search yields the list \<open>nearbyStations\<close>: if some station of the list has a power output
  of at least 30 kW, the evaluator returns a suggestion whose \<open>chargeDuration\<close> is 40 and whose
  station is the first one of the list with at least 30 kW (every station before it is below
  30 kW); if the list is empty or holds only stations below 30 kW, it returns \<open>null\<close>.
\<close>

theorem evaluator_low_battery:
  assumes win: "currentHour \<in> {8..9} \<union> {12..14} \<union> {19..21}"
    and bat: "currentBattery < 60"
    and prov: "search (lat currentLocation) (lng currentLocation) 5 = (Inr nearbyStations, tr)"
  shows "((\<exists>s\<in>set nearbyStations. ext_power_output_kw s \<ge> 30) \<longrightarrow>
           (\<exists>sg pre post.
              fst (evaluateSmartSuggestions search currentHour trip currentLocation currentBattery)
                = Inr (Some sg) \<and>
              chargeDuration sg = 40 \<and>
              nearbyStations = pre @ station sg # post \<and>
              (\<forall>s\<in>set pre. ext_power_output_kw s < 30) \<and>
              ext_power_output_kw (station sg) \<ge> 30)) \<and>
         ((\<forall>s\<in>set nearbyStations. ext_power_output_kw s < 30) \<longrightarrow>
           fst (evaluateSmartSuggestions search currentHour trip currentLocation currentBattery)
             = Inr None)"
proof -
  from win obtain meal where meal: "meal_of_hour currentHour = Some meal"
    using meal_of_hour_None_iff by (cases "meal_of_hour currentHour") auto
  let ?fast = "filter (\<lambda>s. ext_power_output_kw s \<ge> 30) nearbyStations"
  show ?thesis
  proof (cases ?fast)
    case Nil
    then have none: "\<forall>s\<in>set nearbyStations. \<not> ext_power_output_kw s \<ge> 30"
      by (simp add: filter_empty_conv)
    have "fst (evaluateSmartSuggestions search currentHour trip currentLocation currentBattery)
          = Inr None"
      using meal bat prov Nil by (simp add: evaluateSmartSuggestions_def)
    with none show ?thesis by auto
  next
    case (Cons best rest)
    then obtain pre post where dec: "nearbyStations = pre @ best # post"
      "\<forall>s\<in>set pre. \<not> ext_power_output_kw s \<ge> 30" "ext_power_output_kw best \<ge> 30"
      using filter_first[of "\<lambda>s. ext_power_output_kw s \<ge> 30" nearbyStations best rest] by blast
    let ?sg = "\<lparr> sg_type = ''meal_stop'', mealType = meal, station = best,
                 message = suggestion_message meal (ext_name best), chargeDuration = 40 \<rparr>"
    have res: "fst (evaluateSmartSuggestions search currentHour trip currentLocation
                      currentBattery) = Inr (Some ?sg)"
      using meal bat prov Cons by (simp add: evaluateSmartSuggestions_def)
    have a: "\<exists>sg pre post.
              fst (evaluateSmartSuggestions search currentHour trip currentLocation currentBattery)
                = Inr (Some sg) \<and>
              chargeDuration sg = 40 \<and>
              nearbyStations = pre @ station sg # post \<and>
              (\<forall>s\<in>set pre. ext_power_output_kw s < 30) \<and>
              ext_power_output_kw (station sg) \<ge> 30"
      apply (rule exI[of _ ?sg], rule exI[of _ pre], rule exI[of _ post])
      using res dec by (auto simp: not_le)
    have b: "\<not> (\<forall>s\<in>set nearbyStations. ext_power_output_kw s < 30)"
      using dec by auto
    from a b show ?thesis by blast
  qed
qed

theorem evaluator_low_battery_witness:
  "fst (evaluateSmartSuggestions
          (mock_search [charger ''ElectroSpot Station 3'' 22,
                        charger ''ElectroSpot Station 1'' 50,
                        charger ''ElectroSpot Station 4'' 60])
          13 mockTrip mockLocation 40)
     = Inr (Some \<lparr> sg_type = ''meal_stop'', mealType = ''lunch'',
                    station = charger ''ElectroSpot Station 1'' 50,
                    message = suggestion_message ''lunch'' ''ElectroSpot Station 1'',
                    chargeDuration = 40 \<rparr>) \<and>
   (\<exists>sg pre post.
      fst (evaluateSmartSuggestions
             (mock_search [charger ''ElectroSpot Station 3'' 22,
                           charger ''ElectroSpot Station 1'' 50,
                           charger ''ElectroSpot Station 4'' 60])
             13 mockTrip mockLocation 40) = Inr (Some sg) \<and>
      chargeDuration sg = 40 \<and>
      [charger ''ElectroSpot Station 3'' 22, charger ''ElectroSpot Station 1'' 50,
       charger ''ElectroSpot Station 4'' 60] = pre @ station sg # post \<and>
      (\<forall>s\<in>set pre. ext_power_output_kw s < 30) \<and>
      ext_power_output_kw (station sg) \<ge> 30) \<and>
   fst (evaluateSmartSuggestions
          (mock_search [charger ''ElectroSpot Station 2'' 25, charger ''ElectroSpot Station 3'' 22])
          13 mockTrip mockLocation 40) = Inr None \<and>
   fst (evaluateSmartSuggestions (mock_search []) 13 mockTrip mockLocation 40) = Inr None"
proof -
  have win: "(13::nat) \<in> {8..9} \<union> {12..14} \<union> {19..21}" by simp
  have bat: "(40::real) < 60" by simp
  have prov: "mock_search xs (lat mockLocation) (lng mockLocation) 5 = (Inr xs, [])" for xs
    by (simp add: mock_search_def)
  have some: "\<exists>s\<in>set [charger ''ElectroSpot Station 3'' 22, charger ''ElectroSpot Station 1'' 50,
                       charger ''ElectroSpot Station 4'' 60]. ext_power_output_kw s \<ge> 30"
    by (simp add: charger_def)
  have slow: "\<forall>s\<in>set [charger ''ElectroSpot Station 2'' 25, charger ''ElectroSpot Station 3'' 22].
                ext_power_output_kw s < 30"
    by (simp add: charger_def)
  have none: "\<forall>s\<in>set ([] :: ext_station list). ext_power_output_kw s < 30" by simp
  let ?mixed = "[charger ''ElectroSpot Station 3'' 22, charger ''ElectroSpot Station 1'' 50,
                 charger ''ElectroSpot Station 4'' 60]"
  let ?slow = "[charger ''ElectroSpot Station 2'' 25, charger ''ElectroSpot Station 3'' 22]"
  note a = evaluator_low_battery[where search = "mock_search ?mixed" and trip = mockTrip,
      OF win bat prov, THEN conjunct1, THEN mp, OF some]
  note b = evaluator_low_battery[where search = "mock_search ?slow" and trip = mockTrip,
      OF win bat prov, THEN conjunct2, THEN mp, OF slow]
  note c = evaluator_low_battery[where search = "mock_search []" and trip = mockTrip,
      OF win bat prov, THEN conjunct2, THEN mp, OF none]
  have run: "fst (evaluateSmartSuggestions (mock_search ?mixed) 13 mockTrip mockLocation 40)
     = Inr (Some \<lparr> sg_type = ''meal_stop'', mealType = ''lunch'',
                    station = charger ''ElectroSpot Station 1'' 50,
                    message = suggestion_message ''lunch'' ''ElectroSpot Station 1'',
                    chargeDuration = 40 \<rparr>)"
    by (simp add: evaluateSmartSuggestions_def meal_of_hour_def mock_search_def charger_def)
  show ?thesis by (intro conjI run a b c)
qed

section \<open>Properties of External Station Discovery\<close>

lemma search_never_throws:
  "\<exists>stations. fst (searchExternalStations e la lo r) = Inr stations"
  by (simp add: searchExternalStations_def split: sum.splits)

lemma map_places_fields:
  "map_places rnd i ps = Inr ss \<Longrightarrow>
   \<forall>s\<in>set ss. take 4 (ext_id s) = ''ext_'' \<and> is_external s \<and> ext_status s = Available \<and>
     ext_connector_type s = ''CCS2'' \<and> ext_price_per_kwh s = 0 \<and> ext_power_output_kw s = 50"
proof (induction rnd i ps arbitrary: ss rule: map_places.induct)
  case (1 rnd i)
  then show ?case by simp
next
  case (2 rnd i ps)
  then show ?case by simp
next
  case (3 rnd i p ps)
  then show ?case
    by (auto simp: to_station_def split: sum.splits)
qed

lemma map_places_null:
  "None \<in> set ps \<Longrightarrow> \<exists>msg. map_places rnd i ps = Inl msg"
proof (induction rnd i ps rule: map_places.induct)
  case (3 rnd i p ps)
  then show ?case by (auto split: sum.splits)
qed simp_all

lemma map_places_total:
  "None \<notin> set ps \<Longrightarrow> \<exists>ss. map_places rnd i ps = Inr ss \<and> length ss = length ps"
proof (induction rnd i ps rule: map_places.induct)
  case (3 rnd i p ps)
  then show ?case by (auto split: sum.splits)
qed simp_all

lemma search_stations_fields:
  assumes "fst (searchExternalStations e la lo r) = Inr stations"
  shows "\<forall>s\<in>set stations. take 4 (ext_id s) = ''ext_'' \<and> is_external s \<and>
     ext_status s = Available \<and> ext_connector_type s = ''CCS2'' \<and> ext_price_per_kwh s = 0 \<and>
     ext_power_output_kw s = 50"
proof (cases "key_missing e")
  case True
  with assms show ?thesis by (simp add: searchExternalStations_def)
next
  case False
  show ?thesis
  proof (cases "try_body e la lo")
    case (Inl msg)
    with False assms show ?thesis by (simp add: searchExternalStations_def)
  next
    case (Inr ss)
    with False assms have eq: "stations = ss" by (simp add: searchExternalStations_def)
    have "ss = [] \<or> (\<exists>ps. map_places (random_token e) 0 ps = Inr ss)"
      using Inr
      by (auto simp: try_body_def
            split: axios_result.splits response_data.splits places_field.splits)
    with map_places_fields eq show ?thesis by fastforce
  qed
qed

lemma search_well_formed_places:
  assumes "\<not> key_missing e" "axios e la lo = Resolved (Data (Places ps))" "None \<notin> set ps"
  shows "\<exists>ss. fst (searchExternalStations e la lo r) = Inr ss \<and> length ss = length ps"
  using assms map_places_total[of ps "random_token e" 0]
  by (auto simp: searchExternalStations_def try_body_def)

text \<open>
  Claim C4. \<open>searchExternalStations\<close> never throws: for every environment and every argument
  it returns a list. The list is empty when the API key is missing and whenever the body of
  the \<open>try\<close> block fails, which covers a rejected request, a response without data, a
  \<open>places\<close> value that is no array, and an array with a \<open>null\<close> entry.
\<close>

theorem searchExternalStations_absorbs_failures:
  "(\<exists>stations. fst (searchExternalStations e la lo r) = Inr stations) \<and>
   (key_missing e \<longrightarrow> fst (searchExternalStations e la lo r) = Inr []) \<and>
   ((\<exists>msg. try_body e la lo = Inl msg) \<longrightarrow> fst (searchExternalStations e la lo r) = Inr []) \<and>
   ((\<exists>msg. axios e la lo = Rejected msg) \<longrightarrow> fst (searchExternalStations e la lo r) = Inr []) \<and>
   (axios e la lo = Resolved Data_nullish \<longrightarrow> fst (searchExternalStations e la lo r) = Inr []) \<and>
   (axios e la lo = Resolved (Data Places_not_array) \<longrightarrow>
      fst (searchExternalStations e la lo r) = Inr []) \<and>
   ((\<exists>ps. axios e la lo = Resolved (Data (Places ps)) \<and> None \<in> set ps) \<longrightarrow>
      fst (searchExternalStations e la lo r) = Inr [])"
proof -
  have total: "\<exists>stations. fst (searchExternalStations e la lo r) = Inr stations"
    by (simp add: searchExternalStations_def split: sum.splits)
  have nokey: "key_missing e \<longrightarrow> fst (searchExternalStations e la lo r) = Inr []"
    by (simp add: searchExternalStations_def)
  have caught: "fst (searchExternalStations e la lo r) = Inr []"
    if "try_body e la lo = Inl msg" for msg
    using that by (simp add: searchExternalStations_def)
  have rej: "try_body e la lo = Inl msg" if "axios e la lo = Rejected msg" for msg
    using that by (simp add: try_body_def)
  have nul: "\<exists>msg. try_body e la lo = Inl msg" if "axios e la lo = Resolved Data_nullish"
    using that by (simp add: try_body_def)
  have noarr: "\<exists>msg. try_body e la lo = Inl msg"
    if "axios e la lo = Resolved (Data Places_not_array)"
    using that by (simp add: try_body_def)
  have nullentry: "\<exists>msg. try_body e la lo = Inl msg"
    if "axios e la lo = Resolved (Data (Places ps))" "None \<in> set ps" for ps
    using that map_places_null[of ps "random_token e" 0] by (simp add: try_body_def)
  show ?thesis
    using total nokey caught rej nul noarr nullentry by blast
qed

theorem searchExternalStations_absorbs_failures_witness:
  "fst (searchExternalStations (provider_env None (Rejected ''unused'')) (10.0159::real) 76.3419 5) = Inr [] \<and>
   fst (searchExternalStations (provider_env (Some ''test-key'') (Rejected ''timeout of 0ms exceeded''))
          (10.0159::real) 76.3419 5) = Inr [] \<and>
   fst (searchExternalStations (provider_env (Some ''test-key'') (Resolved Data_nullish))
          (10.0159::real) 76.3419 5) = Inr [] \<and>
   fst (searchExternalStations (provider_env (Some ''test-key'') (Resolved (Data Places_not_array)))
          (10.0159::real) 76.3419 5) = Inr [] \<and>
   fst (searchExternalStations
          (provider_env (Some ''test-key'')
             (Resolved (Data (Places [Some (place_at ''Kochi Fast Charge'' 10 76), None]))))
          (10.0159::real) 76.3419 5) = Inr []"
proof -
  let ?absent = "provider_env None (Rejected ''unused'')"
  let ?rejected = "provider_env (Some ''test-key'') (Rejected ''timeout of 0ms exceeded'')"
  let ?nodata = "provider_env (Some ''test-key'') (Resolved Data_nullish)"
  let ?noarray = "provider_env (Some ''test-key'') (Resolved (Data Places_not_array))"
  let ?ps = "[Some (place_at ''Kochi Fast Charge'' 10 76), None]"
  let ?nullentry = "provider_env (Some ''test-key'') (Resolved (Data (Places ?ps)))"
  have k: "key_missing ?absent" by (simp add: key_missing_def provider_env_def)
  have r: "\<exists>msg. axios ?rejected (10.0159::real) 76.3419 = Rejected msg" by (simp add: provider_env_def)
  have n: "axios ?nodata (10.0159::real) 76.3419 = Resolved Data_nullish" by (simp add: provider_env_def)
  have a: "axios ?noarray (10.0159::real) 76.3419 = Resolved (Data Places_not_array)"
    by (simp add: provider_env_def)
  have p: "\<exists>ps. axios ?nullentry (10.0159::real) 76.3419 = Resolved (Data (Places ps)) \<and> None \<in> set ps"
    by (simp add: provider_env_def)
  note all = searchExternalStations_absorbs_failures
  from all[of ?absent "10.0159::real" "76.3419" 5] k
  have 1: "fst (searchExternalStations ?absent (10.0159::real) 76.3419 5) = Inr []" by blast
  from all[of ?rejected "10.0159::real" "76.3419" 5] r
  have 2: "fst (searchExternalStations ?rejected (10.0159::real) 76.3419 5) = Inr []" by blast
  from all[of ?nodata "10.0159::real" "76.3419" 5] n
  have 3: "fst (searchExternalStations ?nodata (10.0159::real) 76.3419 5) = Inr []" by blast
  from all[of ?noarray "10.0159::real" "76.3419" 5] a
  have 4: "fst (searchExternalStations ?noarray (10.0159::real) 76.3419 5) = Inr []" by blast
  from all[of ?nullentry "10.0159::real" "76.3419" 5] p
  have 5: "fst (searchExternalStations ?nullentry (10.0159::real) 76.3419 5) = Inr []" by blast
  from 1 2 3 4 5 show ?thesis by (intro conjI)
qed

lemma evaluator_on_fast_list:
  assumes win: "currentHour \<in> {8..9} \<union> {12..14} \<union> {19..21}"
    and bat: "currentBattery < 60"
    and found: "fst (search (lat currentLocation) (lng currentLocation) 5) = Inr stations"
    and fast: "\<forall>s\<in>set stations. ext_power_output_kw s = 50"
  shows "(\<exists>sg. fst (evaluateSmartSuggestions search currentHour trip currentLocation
                      currentBattery) = Inr (Some sg)) \<longleftrightarrow> stations \<noteq> []"
proof -
  from win obtain meal where meal: "meal_of_hour currentHour = Some meal"
    using meal_of_hour_None_iff by (cases "meal_of_hour currentHour") auto
  obtain tr where call:
    "search (lat currentLocation) (lng currentLocation) 5 = (Inr stations, tr)"
    using found by (cases "search (lat currentLocation) (lng currentLocation) 5") simp
  from fast have keep: "filter (\<lambda>s. ext_power_output_kw s \<ge> 30) stations = stations"
    by (simp add: filter_id_conv)
  show ?thesis
    using meal bat call keep
    by (cases stations) (simp_all add: evaluateSmartSuggestions_def)
qed

text \<open>
  Claim C10. Every station that \<open>searchExternalStations\<close> returns has an id starting with
  \<open>ext_\<close>, \<open>is_external\<close> true, status available, connector type \<open>CCS2\<close>, price 0 and power
  output exactly 50. So the evaluator's filter keeps all of them, and during a meal window
  with a battery below 60 the evaluator, run on \<open>searchExternalStations\<close>, returns a
  suggestion exactly when that function returns a non-empty list; when the key is set and
  the provider answers with an array of non-null places, exactly when that array is
  non-empty.
\<close>

theorem external_stations_are_fast_chargers:
  "(\<forall>la lo r stations.
      fst (searchExternalStations e la lo r) = Inr stations \<longrightarrow>
      (\<forall>s\<in>set stations.
         take 4 (ext_id s) = ''ext_'' \<and> is_external s \<and> ext_status s = Available \<and>
         ext_connector_type s = ''CCS2'' \<and> ext_price_per_kwh s = 0 \<and>
         ext_power_output_kw s = 50) \<and>
      filter (\<lambda>s. ext_power_output_kw s \<ge> 30) stations = stations) \<and>
   (currentHour \<in> {8..9} \<union> {12..14} \<union> {19..21} \<and> currentBattery < 60 \<longrightarrow>
      ((\<exists>sg. fst (evaluateSmartSuggestions (searchExternalStations e) currentHour trip
                    currentLocation currentBattery) = Inr (Some sg))
       \<longleftrightarrow> (\<exists>stations.
              fst (searchExternalStations e (lat currentLocation) (lng currentLocation) 5)
                = Inr stations \<and> stations \<noteq> [])) \<and>
      (\<forall>ps. \<not> key_missing e \<and>
            axios e (lat currentLocation) (lng currentLocation) = Resolved (Data (Places ps)) \<and>
            None \<notin> set ps \<longrightarrow>
            ((\<exists>sg. fst (evaluateSmartSuggestions (searchExternalStations e) currentHour trip
                          currentLocation currentBattery) = Inr (Some sg))
             \<longleftrightarrow> ps \<noteq> [])))"
proof -
  have fields: "(\<forall>s\<in>set stations.
         take 4 (ext_id s) = ''ext_'' \<and> is_external s \<and> ext_status s = Available \<and>
         ext_connector_type s = ''CCS2'' \<and> ext_price_per_kwh s = 0 \<and>
         ext_power_output_kw s = 50) \<and>
      filter (\<lambda>s. ext_power_output_kw s \<ge> 30) stations = stations"
    if "fst (searchExternalStations e la lo r) = Inr stations" for la lo r stations
  proof -
    from search_stations_fields[OF that] have f: "\<forall>s\<in>set stations.
         take 4 (ext_id s) = ''ext_'' \<and> is_external s \<and> ext_status s = Available \<and>
         ext_connector_type s = ''CCS2'' \<and> ext_price_per_kwh s = 0 \<and>
         ext_power_output_kw s = 50" .
    then have "filter (\<lambda>s. ext_power_output_kw s \<ge> 30) stations = stations"
      by (simp add: filter_id_conv)
    with f show ?thesis by (intro conjI)
  qed
  let ?la = "lat currentLocation" and ?lo = "lng currentLocation"
  let ?some = "\<exists>sg. fst (evaluateSmartSuggestions (searchExternalStations e) currentHour trip
                    currentLocation currentBattery) = Inr (Some sg)"
  obtain found where found: "fst (searchExternalStations e ?la ?lo 5) = Inr found"
    using search_never_throws[of e ?la ?lo 5] by blast
  have fifty: "\<forall>s\<in>set found. ext_power_output_kw s = 50"
    using search_stations_fields[OF found] by simp
  have iff: "?some \<longleftrightarrow> found \<noteq> []"
    if "currentHour \<in> {8..9} \<union> {12..14} \<union> {19..21}" "currentBattery < 60"
    using evaluator_on_fast_list[where search = "searchExternalStations e"
        and currentLocation = currentLocation, OF that found fifty] .
  have iff1: "?some \<longleftrightarrow> (\<exists>stations. fst (searchExternalStations e ?la ?lo 5) = Inr stations \<and>
                                    stations \<noteq> [])"
    if "currentHour \<in> {8..9} \<union> {12..14} \<union> {19..21}" "currentBattery < 60"
    using iff[OF that] found by simp
  have iff2: "?some \<longleftrightarrow> ps \<noteq> []"
    if "currentHour \<in> {8..9} \<union> {12..14} \<union> {19..21}" "currentBattery < 60"
      and "\<not> key_missing e" "axios e ?la ?lo = Resolved (Data (Places ps))" "None \<notin> set ps"
    for ps
  proof -
    from search_well_formed_places[OF that(3,4,5), of 5] found
    have "length found = length ps" by simp
    then have "found \<noteq> [] \<longleftrightarrow> ps \<noteq> []" by auto
    with iff[OF that(1,2)] show ?thesis by simp
  qed
  show ?thesis
  proof (intro conjI allI impI)
    fix la lo r stations
    assume "fst (searchExternalStations e la lo r) = Inr stations"
    from fields[OF this]
    show "\<forall>s\<in>set stations.
         take 4 (ext_id s) = ''ext_'' \<and> is_external s \<and> ext_status s = Available \<and>
         ext_connector_type s = ''CCS2'' \<and> ext_price_per_kwh s = 0 \<and>
         ext_power_output_kw s = 50"
      and "filter (\<lambda>s. ext_power_output_kw s \<ge> 30) stations = stations"
      by simp_all
  next
    assume "currentHour \<in> {8..9} \<union> {12..14} \<union> {19..21} \<and> currentBattery < 60"
    then show "?some \<longleftrightarrow> (\<exists>stations. fst (searchExternalStations e ?la ?lo 5) = Inr stations \<and>
                                    stations \<noteq> [])"
      using iff1 by simp
  next
    fix ps
    assume "currentHour \<in> {8..9} \<union> {12..14} \<union> {19..21} \<and> currentBattery < 60"
      and "\<not> key_missing e \<and> axios e ?la ?lo = Resolved (Data (Places ps)) \<and> None \<notin> set ps"
    then show "?some \<longleftrightarrow> ps \<noteq> []" using iff2[of ps] by simp
  qed
qed

theorem external_stations_are_fast_chargers_witness:
  "(\<exists>sg. fst (evaluateSmartSuggestions
                (searchExternalStations
                   (provider_env (Some ''test-key'')
                      (Resolved (Data (Places [Some (place_at ''Kochi Fast Charge'' 10 76),
                                               Some (place_at ''Edappally Hub'' 10 76)])))))
                13 mockTrip mockLocation 40) = Inr (Some sg)) \<and>
   fst (searchExternalStations
          (provider_env (Some ''test-key'')
             (Resolved (Data (Places [Some (place_at ''Kochi Fast Charge'' 10 76),
                                      Some (place_at ''Edappally Hub'' 10 76)]))))
          (10.0159::real) 76.3419 5)
     = Inr [to_station fixed_token 0 (place_at ''Kochi Fast Charge'' 10 76),
            to_station fixed_token 1 (place_at ''Edappally Hub'' 10 76)] \<and>
   list_all (\<lambda>s. take 4 (ext_id s) = ''ext_'' \<and> is_external s \<and> ext_status s = Available \<and>
                  ext_connector_type s = ''CCS2'' \<and> ext_price_per_kwh s = 0 \<and>
                  ext_power_output_kw s = 50)
     [to_station fixed_token 0 (place_at ''Kochi Fast Charge'' 10 76),
      to_station fixed_token 1 (place_at ''Edappally Hub'' 10 76)]"
proof -
  let ?ps = "[Some (place_at ''Kochi Fast Charge'' 10 76), Some (place_at ''Edappally Hub'' 10 76)]"
  let ?e = "provider_env (Some ''test-key'') (Resolved (Data (Places ?ps)))"
  let ?found = "[to_station fixed_token 0 (place_at ''Kochi Fast Charge'' 10 76),
                 to_station fixed_token 1 (place_at ''Edappally Hub'' 10 76)]"
  note main = external_stations_are_fast_chargers[where e = ?e and currentHour = 13
      and currentBattery = 40 and trip = mockTrip and currentLocation = mockLocation]
  have win: "(13::nat) \<in> {8..9} \<union> {12..14} \<union> {19..21} \<and> (40::real) < 60" by simp
  have ok: "\<not> key_missing ?e \<and>
            axios ?e (lat mockLocation) (lng mockLocation) = Resolved (Data (Places ?ps)) \<and>
            None \<notin> set ?ps"
    by (simp add: key_missing_def provider_env_def)
  have nonempty: "?ps \<noteq> []" by simp
  have run: "fst (searchExternalStations ?e (10.0159::real) 76.3419 5) = Inr ?found"
    by (simp add: searchExternalStations_def key_missing_def provider_env_def try_body_def)
  from main[THEN conjunct2, THEN mp, OF win, THEN conjunct2, THEN spec, THEN mp, OF ok] nonempty
  have a: "\<exists>sg. fst (evaluateSmartSuggestions (searchExternalStations ?e) 13 mockTrip
                        mockLocation 40) = Inr (Some sg)"
    by simp
  from main[THEN conjunct1, THEN spec, THEN spec, THEN spec, THEN spec, THEN mp, OF run]
  have b: "\<forall>s\<in>set ?found.
      take 4 (ext_id s) = ''ext_'' \<and> is_external s \<and> ext_status s = Available \<and>
      ext_connector_type s = ''CCS2'' \<and> ext_price_per_kwh s = 0 \<and>
      ext_power_output_kw s = 50"
    by (rule conjunct1)
  then have c: "list_all (\<lambda>s. take 4 (ext_id s) = ''ext_'' \<and> is_external s \<and>
                  ext_status s = Available \<and> ext_connector_type s = ''CCS2'' \<and>
                  ext_price_per_kwh s = 0 \<and> ext_power_output_kw s = 50) ?found"
    unfolding list_all_iff .
  from a run c show ?thesis by (intro conjI)
qed

section \<open>Properties of station search\<close>

lemma float8_le_refl: "float8_le a a"
  by (cases a) simp_all









lemma with_distance_raises:
  "s \<in> set live \<Longrightarrow> sql_distance pf p1 p2 s = Inl msg \<Longrightarrow>
   \<exists>error. with_distance pf p1 p2 live = Inl error"
  by (induction live) (auto split: sum.splits)





lemma stations_search_shape:
  assumes "q_latitude req = Some latitude" "latitude \<noteq> []"
    and "q_longitude req = Some longitude" "longitude \<noteq> []"
    and rows: "search_query pf table (parseFloat pf latitude) (parseFloat pf longitude)
                 (case q_radius req of None \<Rightarrow> Num 10 | Some r \<Rightarrow> parseFloat pf r) = Inr rows"
    and radius: "radius = (case q_radius req of None \<Rightarrow> ''10'' | Some r \<Rightarrow> r)"
  shows "stations_search pf e table req =
           (if length rows < 5
            then (Search_200 (map (\<lambda>(s, d). Persisted s d) rows @
                    map External
                      (filter (\<lambda>x. toLowerCase pf (ext_name x) \<notin>
                                      (\<lambda>(s, d). toLowerCase pf (st_name s)) ` set rows)
                         (case fst (searchExternalStations e latitude longitude radius) of
                            Inl err \<Rightarrow> [] | Inr xs \<Rightarrow> xs))),
                  snd (searchExternalStations e latitude longitude radius))
            else (Search_200 (map (\<lambda>(s, d). Persisted s d) rows), []))"
proof -
  obtain xs where xs: "fst (searchExternalStations e latitude longitude radius) = Inr xs"
    using search_never_throws[of e latitude longitude radius] by blast
  then obtain tr where call: "searchExternalStations e latitude longitude radius = (Inr xs, tr)"
    by (cases "searchExternalStations e latitude longitude radius") simp
  show ?thesis
    using assms(1-5) call
    by (simp add: stations_search_def Let_def radius[symmetric])
qed

lemma stations_search_raises:
  assumes "q_latitude req = Some latitude" "latitude \<noteq> []"
    and "q_longitude req = Some longitude" "longitude \<noteq> []"
    and "s \<in> set table" "not_inactive s"
    and "sql_distance pf (parseFloat pf latitude) (parseFloat pf longitude) s = Inl msg"
  shows "stations_search pf e table req = (Search_500 ''Internal server error'', [])"
proof -
  from assms(5,6) have "s \<in> set (filter not_inactive table)" by simp
  from with_distance_raises[OF this assms(7)]
  obtain error where
    "search_query pf table (parseFloat pf latitude) (parseFloat pf longitude)
       (case q_radius req of None \<Rightarrow> Num 10 | Some r \<Rightarrow> parseFloat pf r) = Inl error"
    by (auto simp: search_query_def)
  with assms(1-4) show ?thesis by (simp add: stations_search_def)
qed

lemma parse_examples:
  "parseFloat example_platform ''0'' = Num 0"
  "parseFloat example_platform ''10'' = Num 10"
  "parseFloat example_platform ''12742'' = Num 12742"
  "parseFloat example_platform [] = NaN"
  by (simp_all add: example_platform_def decimal_value_def is_digit_def)

lemma int4in_examples:
  "int4in example_platform ''search'' = None"
  "int4in example_platform ''2147483648'' = None"
  "int4in example_platform ''1'' = Some 1"
  "int4in example_platform ''99'' = Some 99"
  by (simp_all add: example_platform_def decimal_value_def is_digit_def)

lemma no_raise: "\<not> acos_raises example_platform a b latitude longitude"
  by (simp add: example_platform_def)


lemma great_circle_origin: "great_circle 0 0 0 0 = 0"
  by (simp add: great_circle_def radians_def)

lemma great_circle_quarter: "great_circle 0 0 0 90 = 6371 * pi / 2"
  by (simp add: great_circle_def radians_def)

lemma query_station_one:
  "search_query example_platform [station_one] (Num 0) (Num 0) (Num 10)
   = Inr [(station_one, Num 0)]"
  by (simp add: search_query_def sql_distance_def example_platform_def station_one_def
        station_at_def not_inactive_def great_circle_origin order_by_distance_def)




text \<open>An empty \<open>radius\<close> parameter is not the default: it is read as \<open>NaN\<close>, which every
  distance is below, so the row a quarter of the globe away is kept.\<close>

lemma empty_radius_keeps_every_row:
  "search_query example_platform [station_at 2 ''ElectroSpot Station 2'' 0 90 Available]
     (parseFloat example_platform ''0'') (parseFloat example_platform ''0'')
     (parseFloat example_platform [])
   = Inr [(station_at 2 ''ElectroSpot Station 2'' 0 90 Available, Num (6371 * pi / 2))]"
  by (simp add: parse_examples search_query_def sql_distance_def no_raise station_at_def
        not_inactive_def great_circle_quarter order_by_distance_def)




text \<open>
  The search handler, when it runs: \<open>searchExternalStations\<close> is entered exactly when the
  query has fewer than five rows, and then the response is the rows in their order followed
  by those external stations, in the provider's order, whose lower-cased name is the
  lower-cased name of no row.
\<close>

lemma fallback_in_handler:
  assumes lat: "q_latitude req = Some latitude" "latitude \<noteq> []"
    and lng: "q_longitude req = Some longitude" "longitude \<noteq> []"
    and rows: "search_query pf table (parseFloat pf latitude) (parseFloat pf longitude)
                 (case q_radius req of None \<Rightarrow> Num 10 | Some r \<Rightarrow> parseFloat pf r) = Inr rows"
    and radius: "radius = (case q_radius req of None \<Rightarrow> ''10'' | Some r \<Rightarrow> r)"
  shows "(\<exists>a b c. Call_searchExternalStations a b c
                     \<in> set (snd (stations_search pf e table req)))
           \<longleftrightarrow> length rows < 5"
    and "length rows \<ge> 5 \<Longrightarrow>
           fst (stations_search pf e table req)
             = Search_200 (map (\<lambda>(s, d). Persisted s d) rows)"
    and "length rows < 5 \<Longrightarrow>
           \<exists>externalStations.
             fst (searchExternalStations e latitude longitude radius) = Inr externalStations \<and>
             fst (stations_search pf e table req)
               = Search_200 (map (\<lambda>(s, d). Persisted s d) rows @
                   map External
                     (filter (\<lambda>x. \<forall>(s, d)\<in>set rows.
                                    toLowerCase pf (st_name s) \<noteq> toLowerCase pf (ext_name x))
                        externalStations))"
proof -
  obtain xs where xs: "fst (searchExternalStations e latitude longitude radius) = Inr xs"
    using search_never_throws[of e latitude longitude radius] by blast
  have called: "Call_searchExternalStations latitude longitude radius
                  \<in> set (snd (searchExternalStations e latitude longitude radius))"
    by (simp add: searchExternalStations_def)
  have same: "(\<lambda>x. toLowerCase pf (ext_name x) \<notin>
                      (\<lambda>(s, d). toLowerCase pf (st_name s)) ` set rows)
              = (\<lambda>x. \<forall>(s, d)\<in>set rows.
                       toLowerCase pf (st_name s) \<noteq> toLowerCase pf (ext_name x))"
    by (rule ext) (auto simp: image_iff)
  note shape = stations_search_shape[OF lat lng rows radius, of e]
  show "(\<exists>a b c. Call_searchExternalStations a b c
                     \<in> set (snd (stations_search pf e table req)))
           \<longleftrightarrow> length rows < 5"
  proof (cases "length rows < 5")
    case True
    with shape have "snd (stations_search pf e table req)
                     = snd (searchExternalStations e latitude longitude radius)"
      by simp
    with called True show ?thesis by auto
  next
    case False
    with shape have "snd (stations_search pf e table req) = []" by simp
    with False show ?thesis by simp
  qed
  show "fst (stations_search pf e table req)
             = Search_200 (map (\<lambda>(s, d). Persisted s d) rows)"
    if "length rows \<ge> 5"
    using shape that by simp
  show "\<exists>externalStations.
             fst (searchExternalStations e latitude longitude radius) = Inr externalStations \<and>
             fst (stations_search pf e table req)
               = Search_200 (map (\<lambda>(s, d). Persisted s d) rows @
                   map External
                     (filter (\<lambda>x. \<forall>(s, d)\<in>set rows.
                                    toLowerCase pf (st_name s) \<noteq> toLowerCase pf (ext_name x))
                        externalStations))"
    if "length rows < 5"
  proof -
    have "fst (stations_search pf e table req)
               = Search_200 (map (\<lambda>(s, d). Persisted s d) rows @
                   map External
                     (filter (\<lambda>x. \<forall>(s, d)\<in>set rows.
                                    toLowerCase pf (st_name s) \<noteq> toLowerCase pf (ext_name x))
                        xs))"
      using shape xs that by (simp add: same)
    with xs show ?thesis by (intro exI conjI)
  qed
qed

lemma far_north_found:
  "searchExternalStations far_north_env ''0'' ''0'' ''10''
   = (Inr [to_station fixed_token 0 (place_at ''ELECTROSPOT STATION 1'' 0 0), far_north],
      [Call_searchExternalStations ''0'' ''0'' ''10'', Axios_post ''0'' ''0''])"
  by (simp add: searchExternalStations_def far_north_env_def far_north_def provider_env_def
        key_missing_def try_body_def to_station_def fixed_token_def)

lemma far_north_search:
  "stations_search example_platform far_north_env [station_one] (query_origin ''10'')
   = (Search_200 [Persisted station_one (Num 0), External far_north],
      [Call_searchExternalStations ''0'' ''0'' ''10'', Axios_post ''0'' ''0''])"
proof -
  have names:
    "toLowerCase example_platform
       (ext_name (to_station fixed_token 0 (place_at ''ELECTROSPOT STATION 1'' 0 0)))
     = toLowerCase example_platform (st_name station_one)"
    "toLowerCase example_platform (ext_name far_north)
       \<noteq> toLowerCase example_platform (st_name station_one)"
    by (simp_all add: example_platform_def far_north_def far_north_place_def to_station_def
          place_at_def or_else_def station_one_def station_at_def lower_char_def)
  show ?thesis
    by (simp add: stations_search_def query_origin_def parse_examples query_station_one
          far_north_found names)
qed

section \<open>Properties of the routing\<close>

text \<open>
  Claim C3 fails in the running server. The route \<open>/stations/:id\<close> is registered before
  \<open>/stations/search\<close>, so a GET of \<open>/stations/search\<close> runs the handler of \<open>/stations/:id\<close>
  with the id \<open>search\<close>. The store cannot read that id as an integer, the answer is 500, and
  \<open>searchExternalStations\<close> is not entered, whatever the query and the number of rows.
\<close>

theorem search_route_shadowed:
  assumes "int4in pf ''search'' = None"
  shows "route_of [''stations'', ''search''] = Some (Stations_id, [''search'']) \<and>
         app_get pf e d [''stations'', ''search''] req
           = (Station_response (Station_500 ''Internal server error''), [])"
proof -
  have route: "route_of [''stations'', ''search''] = Some (Stations_id, [''search''])"
    by (simp add: route_of_def get_routes_def)
  with assms show ?thesis
    by (simp add: app_get_def get_stations_id_def)
qed

theorem search_route_shadowed_witness:
  "int4in example_platform ''search'' = None \<and>
   app_get example_platform far_north_env fresh_db [''stations'', ''search''] (query_origin ''10'')
     = (Station_response (Station_500 ''Internal server error''), []) \<and>
   stations_search example_platform far_north_env (charging_stations fresh_db)
       (query_origin ''10'')
     = (Search_200 [Persisted station_one (Num 0), External far_north],
        [Call_searchExternalStations ''0'' ''0'' ''10'', Axios_post ''0'' ''0''])"
proof -
  have none: "int4in example_platform ''search'' = None" by (rule int4in_examples)
  have table: "charging_stations fresh_db = [station_one]"
    by (simp add: fresh_db_def station_one_def)
  from none search_route_shadowed[OF none, of far_north_env fresh_db "query_origin ''10''",
      THEN conjunct2] far_north_search
  show ?thesis by (simp add: table)
qed

section \<open>Properties of the Booking Manager\<close>

lemma filter_set_station_status:
  "filter (\<lambda>s. st_id s = sid) (charging_stations (set_station_status sid st d))
   = map (\<lambda>s. s\<lparr>st_status := Some st\<rparr>) (filter (\<lambda>s. st_id s = sid) (charging_stations d))"
proof -
  have "filter (\<lambda>s. st_id s = sid)
          (map (\<lambda>s. if st_id s = sid then s\<lparr>st_status := Some st\<rparr> else s) xs)
        = map (\<lambda>s. s\<lparr>st_status := Some st\<rparr>) (filter (\<lambda>s. st_id s = sid) xs)"
    for xs :: "station_row list"
    by (induction xs) auto
  then show ?thesis by (simp add: set_station_status_def)
qed

lemma get_station_filter:
  "get_station d sid = Station_200 row \<Longrightarrow>
   \<exists>rest. filter (\<lambda>s. st_id s = sid) (charging_stations d) = row # rest"
  by (auto simp: get_station_def split: list.splits)

lemma get_station_after_set:
  assumes "get_station d sid = Station_200 row"
  shows "get_station (set_station_status sid st d) sid
         = Station_200 (row\<lparr>st_status := Some st\<rparr>)"
  using get_station_filter[OF assms]
  by (auto simp: get_station_def filter_set_station_status)

lemma get_station_bookings_update:
  "get_station (d\<lparr>bookings := bs\<rparr>) sid = get_station d sid"
  by (simp add: get_station_def)

lemma cancel_not_found:
  assumes "\<forall>b\<in>set (bookings d). bk_id b = n \<longrightarrow> bk_user_id b \<noteq> userId"
  shows "delete_booking now d userId n = (Booking_404 ''Booking not found'', d)"
proof -
  from assms have "filter (\<lambda>b. bk_id b = n \<and> bk_user_id b = userId) (bookings d) = []"
    by (auto simp: filter_empty_conv)
  then show ?thesis by (simp add: delete_booking_def)
qed

text \<open>
  Claim C7, as amended. A cancellation whose path id the store cannot read as an integer
  (no booking has such an id) is answered 500, and one whose id is read as an integer of
  which no booking belongs to the requesting user (there is no such booking, or it is
  another user's) is answered 404. In both cases the store is unchanged: every booking and
  every station keeps its status.
\<close>

theorem cancel_foreign_booking_unchanged:
  "(int4in pf ident = None \<longrightarrow>
      delete_bookings_id pf now d userId ident = (Booking_500 ''Internal server error'', d)) \<and>
   (\<forall>n. int4in pf ident = Some n \<and>
        (\<forall>b\<in>set (bookings d). bk_id b = n \<longrightarrow> bk_user_id b \<noteq> userId) \<longrightarrow>
        delete_bookings_id pf now d userId ident = (Booking_404 ''Booking not found'', d))"
proof (intro conjI allI impI)
  assume "int4in pf ident = None"
  then show "delete_bookings_id pf now d userId ident
             = (Booking_500 ''Internal server error'', d)"
    by (simp add: delete_bookings_id_def)
next
  fix n
  assume "int4in pf ident = Some n \<and>
          (\<forall>b\<in>set (bookings d). bk_id b = n \<longrightarrow> bk_user_id b \<noteq> userId)"
  then show "delete_bookings_id pf now d userId ident = (Booking_404 ''Booking not found'', d)"
    using cancel_not_found[of d n userId now] by (simp add: delete_bookings_id_def)
qed

theorem cancel_foreign_booking_unchanged_witness:
  "delete_bookings_id example_platform 2000 booked_db 2 ''1''
     = (Booking_404 ''Booking not found'', booked_db) \<and>
   delete_bookings_id example_platform 2000 booked_db 1 ''99''
     = (Booking_404 ''Booking not found'', booked_db) \<and>
   delete_bookings_id example_platform 2000 booked_db 1 ''search''
     = (Booking_500 ''Internal server error'', booked_db) \<and>
   map bk_user_id (bookings booked_db) = [1] \<and>
   map bk_status (bookings booked_db) = [Active] \<and>
   map st_status (charging_stations booked_db) = [Some Occupied]"
proof -
  note main = cancel_foreign_booking_unchanged[where pf = example_platform and now = 2000
      and d = booked_db]
  have other: "int4in example_platform ''1'' = Some 1 \<and>
               (\<forall>b\<in>set (bookings booked_db). bk_id b = 1 \<longrightarrow> bk_user_id b \<noteq> 2)"
    by (simp add: int4in_examples booked_db_def)
  have absent: "int4in example_platform ''99'' = Some 99 \<and>
                (\<forall>b\<in>set (bookings booked_db). bk_id b = 99 \<longrightarrow> bk_user_id b \<noteq> 1)"
    by (simp add: int4in_examples booked_db_def)
  have unread: "int4in example_platform ''search'' = None"
    by (rule int4in_examples)
  have state: "map bk_user_id (bookings booked_db) = [1]"
    "map bk_status (bookings booked_db) = [Active]"
    "map st_status (charging_stations booked_db) = [Some Occupied]"
    by (simp_all add: booked_db_def station_at_def)
  note a = main[where ident = "''1''" and userId = 2, THEN conjunct2, THEN spec, THEN mp, OF other]
  note b = main[where ident = "''99''" and userId = 1, THEN conjunct2, THEN spec, THEN mp,
      OF absent]
  note c = main[where ident = "''search''" and userId = 1, THEN conjunct1, THEN mp, OF unread]
  from a b c state show ?thesis by (intro conjI)
qed

text \<open>
  Claim C7 as stated fails on the response code. No booking has the id 2147483648, which is
  outside 32 bits; cancelling it is answered 500, not 404, with the store unchanged.
\<close>

theorem cancel_out_of_range_counterexample:
  "delete_bookings_id example_platform 2000 booked_db 1 ''2147483648''
     = (Booking_500 ''Internal server error'', booked_db) \<and>
   map bk_id (bookings booked_db) = [1]"
  by (simp add: delete_bookings_id_def int4in_examples booked_db_def)

text \<open>
  Claim C8. Let a request name a station that exists with status available, carry a start
  time, come from a user who exists, and let the next booking id be unused. Then creating
  the booking answers 201 and the station is then read as occupied; cancelling that booking
  by the same user answers 200 and the station is then read as available.
\<close>

theorem booking_round_trip:
  assumes req: "station_id req = Some sid" "sid \<noteq> 0" "start_time req = Some st"
    and avail: "get_station d sid = Station_200 row" "st_status row = Some Available"
    and owner: "list_ex (\<lambda>u. u_id u = userId) (users d)"
    and fresh: "\<not> list_ex (\<lambda>b. bk_id b = bookings_id_seq d) (bookings d)"
  shows "\<exists>created d1 d2.
           post_bookings now d userId req = (Booking_201 created, d1) \<and>
           bk_user_id created = userId \<and> bk_station_id created = sid \<and>
           bk_status created = Active \<and>
           get_station d1 sid = Station_200 (row\<lparr>st_status := Some Occupied\<rparr>) \<and>
           delete_booking later d1 userId (bk_id created)
             = (Booking_200 ''Booking cancelled successfully'', d2) \<and>
           get_station d2 sid = Station_200 (row\<lparr>st_status := Some Available\<rparr>)"
proof -
  define endTime where
    "endTime = (case duration req of None \<Rightarrow> None
                | Some m \<Rightarrow> if m = 0 then None else Some (st + m * 60000))"
  define created where
    "created = \<lparr> bk_id = bookings_id_seq d, bk_user_id = userId, bk_station_id = sid,
                 bk_start_time = st, bk_end_time = endTime, bk_status = Active,
                 bk_created_at = now, bk_cancelled_at = None \<rparr>"
  define d0 where
    "d0 = d\<lparr>bookings_id_seq := bookings_id_seq d + 1, bookings := bookings d @ [created]\<rparr>"
  define d1 where "d1 = set_station_status sid Occupied d0"
  define d1c where
    "d1c = d1\<lparr>bookings :=
               map (\<lambda>b. if bk_id b = bk_id created
                         then b\<lparr>bk_status := Cancelled, bk_cancelled_at := Some later\<rparr>
                         else b)
                 (bookings d1)\<rparr>"
  define d2 where "d2 = set_station_status sid Available d1c"
  from get_station_filter[OF avail(1)] obtain rest where
    rows: "filter (\<lambda>s. st_id s = sid) (charging_stations d) = row # rest" ..
  have ins: "insert_booking d userId sid st endTime now = (Inr created, d0)"
    using owner fresh by (simp add: insert_booking_def created_def d0_def Let_def)
  have post: "post_bookings now d userId req = (Booking_201 created, d1)"
    using req rows avail(2) ins
    by (simp add: post_bookings_def d1_def endTime_def)
  have st0: "get_station d0 sid = Station_200 row"
    using avail(1) by (simp add: get_station_def d0_def)
  have occ: "get_station d1 sid = Station_200 (row\<lparr>st_status := Some Occupied\<rparr>)"
    unfolding d1_def by (rule get_station_after_set[OF st0])
  have old: "filter (\<lambda>b. bk_id b = bk_id created \<and> bk_user_id b = userId) (bookings d) = []"
    using fresh by (auto simp: list_ex_iff filter_empty_conv created_def)
  have mine: "filter (\<lambda>b. bk_id b = bk_id created \<and> bk_user_id b = userId) (bookings d1)
              = [created]"
    using old by (simp add: d1_def d0_def set_station_status_def created_def)
  have del: "delete_booking later d1 userId (bk_id created)
             = (Booking_200 ''Booking cancelled successfully'', d2)"
    using mine by (simp add: delete_booking_def d2_def d1c_def created_def)
  have "get_station d1c sid = Station_200 (row\<lparr>st_status := Some Occupied\<rparr>)"
    using occ by (simp add: d1c_def get_station_bookings_update)
  from get_station_after_set[OF this]
  have free: "get_station d2 sid = Station_200 (row\<lparr>st_status := Some Available\<rparr>)"
    by (simp add: d2_def)
  have "bk_user_id created = userId \<and> bk_station_id created = sid \<and> bk_status created = Active"
    by (simp add: created_def)
  with post occ del free show ?thesis by blast
qed

theorem booking_round_trip_witness:
  "get_station fresh_db 1 = Station_200 station_one \<and>
   (\<exists>created d1 d2.
      post_bookings 900 fresh_db 1 \<lparr> station_id = Some 1, start_time = Some 1000,
                                      duration = Some 30 \<rparr>
        = (Booking_201 created, d1) \<and>
      bk_user_id created = 1 \<and> bk_station_id created = 1 \<and> bk_status created = Active \<and>
      get_station d1 1 = Station_200 (station_one\<lparr>st_status := Some Occupied\<rparr>) \<and>
      delete_booking 2000 d1 1 (bk_id created)
        = (Booking_200 ''Booking cancelled successfully'', d2) \<and>
      get_station d2 1 = Station_200 (station_one\<lparr>st_status := Some Available\<rparr>))"
proof -
  let ?req = "\<lparr> station_id = Some 1, start_time = Some 1000, duration = Some 30 \<rparr>"
  have r1: "station_id ?req = Some 1" and r2: "(1::int) \<noteq> 0"
    and r3: "start_time ?req = Some 1000"
    by simp_all
  have g: "get_station fresh_db 1 = Station_200 station_one"
    by (simp add: get_station_def fresh_db_def station_one_def station_at_def)
  have a: "st_status station_one = Some Available"
    by (simp add: station_one_def station_at_def)
  have u: "list_ex (\<lambda>u. u_id u = 1) (users fresh_db)"
    by (simp add: fresh_db_def asha_def)
  have f: "\<not> list_ex (\<lambda>b. bk_id b = bookings_id_seq fresh_db) (bookings fresh_db)"
    by (simp add: fresh_db_def)
  from g booking_round_trip[OF r1 r2 r3 g a u f, of 900 2000]
  show ?thesis by (intro conjI)
qed

section \<open>Properties of registration\<close>

lemma digits_of_digitsOnly: "digitsOnly s = filter is_digit s"
proof -
  have plus: "\<not> is_digit (CHR ''+'')" by (simp add: is_digit_def)
  have "filter (\<lambda>c. c \<noteq> CHR ''+'') (filter (\<lambda>c. is_digit c \<or> c = CHR ''+'') s)
        = filter is_digit s"
    by (induction s) (use plus in auto)
  then show ?thesis by (simp only: digitsOnly_def)
qed

text \<open>
  Claim C9. A registration request whose phone is absent, or whose phone, once trimmed and
  stripped of every character that is no digit, has fewer than 10 digits left, is answered
  with 400 and leaves the store unchanged (no user is created), whatever the name, email
  and password are.
\<close>

theorem register_rejects_short_phone:
  assumes short: "case r_phone req of None \<Rightarrow> True
                  | Some phone \<Rightarrow> length (filter is_digit (trim phone)) < 10"
  shows "\<exists>msg. post_auth_register bcrypt_hash jwt_sign now d req = (Register_400 msg, d)"
proof (cases "r_phone req")
  case None
  then show ?thesis
    by (auto simp: post_auth_register_def split: option.splits)
next
  case (Some phone)
  with short have "length (digitsOnly (trim phone)) < 10"
    by (simp add: digits_of_digitsOnly)
  with Some show ?thesis
    by (auto simp: post_auth_register_def Let_def split: option.splits)
qed

theorem register_rejects_short_phone_witness:
  "length (filter is_digit (trim ''  +91 98765 '')) = 7 \<and>
   post_auth_register id (\<lambda>i email. ''token'') 0 fresh_db
     \<lparr> r_name = Some ''Meera'', r_email = Some ''meera@example.com'',
       r_password = Some ''s3cret-pass'', r_phone = Some ''  +91 98765 '' \<rparr>
   = (Register_400 ''Phone number must be at least 10 digits'', fresh_db)"
proof -
  let ?req = "\<lparr> r_name = Some ''Meera'', r_email = Some ''meera@example.com'',
                r_password = Some ''s3cret-pass'', r_phone = Some ''  +91 98765 '' \<rparr>"
  have t: "trim ''  +91 98765 '' = ''+91 98765''"
    by (simp add: trim_def is_space_def)
  have n: "length (filter is_digit (trim ''  +91 98765 '')) = 7"
    by (simp add: t is_digit_def)
  then have short: "case r_phone ?req of None \<Rightarrow> True
                    | Some phone \<Rightarrow> length (filter is_digit (trim phone)) < 10"
    by simp
  from register_rejects_short_phone[OF short, of id "\<lambda>i email. ''token''" 0 fresh_db]
  obtain msg where res: "post_auth_register id (\<lambda>i email. ''token'') 0 fresh_db ?req
                         = (Register_400 msg, fresh_db)" ..
  have "fst (post_auth_register id (\<lambda>i email. ''token'') 0 fresh_db ?req)
        = Register_400 ''Phone number must be at least 10 digits''"
    by (simp add: post_auth_register_def t digitsOnly_def is_digit_def)
  with res have "msg = ''Phone number must be at least 10 digits''" by simp
  with res n show ?thesis by simp
qed

end
